theory Spec2Isabelle
  imports Main "HOL-Library.Char_ord" "HOL-Library.List_Lexorder"
begin

section \<open>Bytes and strings\<close>

text \<open>
  A Go \<^verbatim>\<open>string\<close> and a \<^verbatim>\<open>[]byte\<close> are sequences of bytes; both are
  modelled by \<^typ>\<open>string\<close>, whose characters are bytes.
\<close>

definition byte :: "char \<Rightarrow> nat" where
  "byte c = of_char c"

definition dquote :: char where
  "dquote = CHR 0x22"

definition backslash :: char where
  "backslash = CHR 0x5C"

definition is_space :: "char \<Rightarrow> bool" where
  "is_space c \<longleftrightarrow> c = CHR 0x20 \<or> c = CHR 0x09 \<or> c = CHR 0x0D \<or> c = CHR 0x0A"

definition is_digit :: "char \<Rightarrow> bool" where
  "is_digit c \<longleftrightarrow> 48 \<le> byte c \<and> byte c \<le> 57"

subsection \<open>UTF-8 (package unicode/utf8)\<close>

definition is_cont :: "char \<Rightarrow> bool" where
  "is_cont c \<longleftrightarrow> 128 \<le> byte c \<and> byte c \<le> 191"

definition replacement :: string where
  "replacement = [CHR 0xEF, CHR 0xBF, CHR 0xBD]"

text \<open>
  \<^verbatim>\<open>utf8.DecodeRune\<close> accepts the well-formed sequences of the Unicode standard
  (no overlong forms, no surrogates, nothing above U+10FFFF): \<open>second_ok b0 b1\<close> is the
  range it allows for the second byte after the leading byte \<open>b0\<close>.
\<close>

definition second_ok :: "char \<Rightarrow> char \<Rightarrow> bool" where
  "second_ok b0 b1 \<longleftrightarrow>
     (if byte b0 = 224 then 160 \<le> byte b1 \<and> byte b1 \<le> 191
      else if byte b0 = 237 then 128 \<le> byte b1 \<and> byte b1 \<le> 159
      else if byte b0 = 240 then 144 \<le> byte b1 \<and> byte b1 \<le> 191
      else if byte b0 = 244 then 128 \<le> byte b1 \<and> byte b1 \<le> 143
      else is_cont b1)"

text \<open>
  Coercion to valid UTF-8, as the encoder and the decoder of encoding/json both do it:
  every byte at which \<^verbatim>\<open>utf8.DecodeRune\<close> reports an error (size 1) is replaced
  by U+FFFD, and decoding goes on at the next byte.
\<close>

fun toValidUTF8 :: "string \<Rightarrow> string" where
  "toValidUTF8 [] = []"
| "toValidUTF8 (b0 # bs) =
     (if byte b0 < 128 then b0 # toValidUTF8 bs
      else if 194 \<le> byte b0 \<and> byte b0 \<le> 223 then
        (case bs of
           b1 # r1 \<Rightarrow>
             if is_cont b1 then b0 # b1 # toValidUTF8 r1
             else replacement @ toValidUTF8 bs
         | [] \<Rightarrow> replacement)
      else if 224 \<le> byte b0 \<and> byte b0 \<le> 239 then
        (case bs of
           b1 # b2 # r2 \<Rightarrow>
             if second_ok b0 b1 \<and> is_cont b2 then b0 # b1 # b2 # toValidUTF8 r2
             else replacement @ toValidUTF8 bs
         | _ \<Rightarrow> replacement @ toValidUTF8 bs)
      else if 240 \<le> byte b0 \<and> byte b0 \<le> 244 then
        (case bs of
           b1 # b2 # b3 # r3 \<Rightarrow>
             if second_ok b0 b1 \<and> is_cont b2 \<and> is_cont b3
             then b0 # b1 # b2 # b3 # toValidUTF8 r3
             else replacement @ toValidUTF8 bs
         | _ \<Rightarrow> replacement @ toValidUTF8 bs)
      else replacement @ toValidUTF8 bs)"

definition validUTF8 :: "string \<Rightarrow> bool" where
  "validUTF8 s \<longleftrightarrow> toValidUTF8 s = s"

text \<open>\<^verbatim>\<open>utf8.EncodeRune\<close>: surrogates and values above U+10FFFF become U+FFFD.\<close>

definition encodeRune :: "nat \<Rightarrow> string" where
  "encodeRune r =
     (if r < 128 then [char_of r]
      else if r < 2048 then [char_of (192 + r div 64), char_of (128 + r mod 64)]
      else if (55296 \<le> r \<and> r < 57344) \<or> 1114111 < r then replacement
      else if r < 65536 then
        [char_of (224 + r div 4096), char_of (128 + r div 64 mod 64), char_of (128 + r mod 64)]
      else
        [char_of (240 + r div 262144), char_of (128 + r div 4096 mod 64),
         char_of (128 + r div 64 mod 64), char_of (128 + r mod 64)])"

section \<open>JSON documents (package encoding/json)\<close>

text \<open>
  The syntax tree of a JSON text. A number and a string keep their literals, as the
  scanner of encoding/json hands them to the decoder: \<open>JString\<close> holds what stands
  between the quotes, escapes and all, and what Go string that is depends on who reads
  it (\<open>unquote\<close> below for a string or an interface, the parser of package time for a
  \<^verbatim>\<open>time.Time\<close>). An object keeps its members in the order of the text,
  duplicates included; their keys are the Go strings that the decoder reads them as.
\<close>

datatype json =
    JNull
  | JBool bool
  | JNumber string
  | JString string
  | JArray "json list"
  | JObject "(string \<times> json) list"

subsection \<open>Number literals\<close>

definition number_exp :: "string \<Rightarrow> bool" where
  "number_exp s =
     (case s of
        [] \<Rightarrow> True
      | e # r \<Rightarrow>
          (e = CHR ''e'' \<or> e = CHR ''E'') \<and>
          (let ds = (case r of
                       [] \<Rightarrow> []
                     | sg # r' \<Rightarrow> if sg = CHR ''+'' \<or> sg = CHR ''-'' then r' else r)
           in ds \<noteq> [] \<and> list_all is_digit ds))"

definition number_frac :: "string \<Rightarrow> bool" where
  "number_frac s =
     (case s of
        [] \<Rightarrow> True
      | c # r \<Rightarrow>
          if c = CHR ''.'' then
            (case r of
               [] \<Rightarrow> False
             | d # r' \<Rightarrow> is_digit d \<and> number_exp (dropWhile is_digit r'))
          else number_exp s)"

definition number_int :: "string \<Rightarrow> bool" where
  "number_int s =
     (case s of
        [] \<Rightarrow> False
      | c # r \<Rightarrow>
          if c = CHR ''0'' then number_frac r
          else is_digit c \<and> number_frac (dropWhile is_digit r))"

definition valid_number :: "string \<Rightarrow> bool" where
  "valid_number s =
     (case s of
        [] \<Rightarrow> False
      | c # r \<Rightarrow> if c = CHR ''-'' then number_int r else number_int s)"

definition is_number_char :: "char \<Rightarrow> bool" where
  "is_number_char c \<longleftrightarrow>
     is_digit c \<or> c = CHR ''-'' \<or> c = CHR ''+'' \<or> c = CHR ''.'' \<or> c = CHR ''e'' \<or> c = CHR ''E''"

subsection \<open>String literals\<close>

definition hexval :: "char \<Rightarrow> nat option" where
  "hexval c =
     (if is_digit c then Some (byte c - 48)
      else if 97 \<le> byte c \<and> byte c \<le> 102 then Some (byte c - 87)
      else if 65 \<le> byte c \<and> byte c \<le> 70 then Some (byte c - 55)
      else None)"

definition getu4 :: "char \<Rightarrow> char \<Rightarrow> char \<Rightarrow> char \<Rightarrow> nat option" where
  "getu4 a b c d =
     (case (hexval a, hexval b, hexval c, hexval d) of
        (Some x, Some y, Some z, Some w) \<Rightarrow> Some (4096 * x + 256 * y + 16 * z + w)
      | _ \<Rightarrow> None)"

text \<open>
  The low half of a surrogate pair: the value of the six bytes \<open>e u a b c d\<close> when they
  are a \<^verbatim>\<open>\uXXXX\<close> escape in the range DC00..DFFF.
\<close>

definition low_surrogate :: "char \<Rightarrow> char \<Rightarrow> char \<Rightarrow> char \<Rightarrow> char \<Rightarrow> char \<Rightarrow> nat option" where
  "low_surrogate e u a b c d =
     (if e = backslash \<and> u = CHR ''u'' then
        (case getu4 a b c d of
           Some r2 \<Rightarrow> if 56320 \<le> r2 \<and> r2 < 57344 then Some r2 else None
         | None \<Rightarrow> None)
      else None)"

definition simple_escape :: "char \<Rightarrow> char option" where
  "simple_escape e =
     (if e = dquote \<or> e = backslash \<or> e = CHR ''/'' then Some e
      else if e = CHR ''b'' then Some (CHR 0x08)
      else if e = CHR ''f'' then Some (CHR 0x0C)
      else if e = CHR ''n'' then Some (CHR 0x0A)
      else if e = CHR ''r'' then Some (CHR 0x0D)
      else if e = CHR ''t'' then Some (CHR 0x09)
      else None)"

text \<open>
  The escapes of a string literal's body. A \<^verbatim>\<open>\u\<close> escape of a high surrogate
  followed by one of a low surrogate is one code point; any other surrogate is U+FFFD.
  A quote or a control character in the body, or an escape the grammar does not have,
  is a syntax error (\<open>None\<close>).
\<close>

fun unescape :: "string \<Rightarrow> string option" where
  "unescape [] = Some []"
| "unescape (c # cs) =
     (if c = backslash then
        (case cs of
           [] \<Rightarrow> None
         | e # r \<Rightarrow>
             if e = CHR ''u'' then
               (case r of
                  a # b # c' # d # r' \<Rightarrow>
                    (case getu4 a b c' d of
                       None \<Rightarrow> None
                     | Some rr \<Rightarrow>
                         if 55296 \<le> rr \<and> rr < 57344 then
                           (case r' of
                              e2 # u2 # a2 # b2 # c2 # d2 # r'' \<Rightarrow>
                                (case low_surrogate e2 u2 a2 b2 c2 d2 of
                                   Some r2 \<Rightarrow>
                                     if rr < 56320 then
                                       map_option
                                         ((@) (encodeRune ((rr - 55296) * 1024 + (r2 - 56320) + 65536)))
                                         (unescape r'')
                                     else map_option ((@) replacement) (unescape r')
                                 | None \<Rightarrow> map_option ((@) replacement) (unescape r'))
                            | _ \<Rightarrow> map_option ((@) replacement) (unescape r'))
                         else map_option ((@) (encodeRune rr)) (unescape r'))
                | _ \<Rightarrow> None)
             else
               (case simple_escape e of
                  None \<Rightarrow> None
                | Some x \<Rightarrow> map_option ((#) x) (unescape r)))
      else if c = dquote \<or> byte c < 32 then None
      else map_option ((#) c) (unescape cs))"

definition unquote :: "string \<Rightarrow> string option" where
  "unquote raw = map_option toValidUTF8 (unescape raw)"

subsection \<open>The scanner\<close>

text \<open>
  The scanner reads the text one byte at a time, as \<^verbatim>\<open>scanner.go\<close> does. A
  scalar (string, number, \<^verbatim>\<open>true\<close>, \<^verbatim>\<open>false\<close>, \<^verbatim>\<open>null\<close>) is one
  token; the six structural characters are the other tokens.
\<close>

datatype token = TLBrace | TRBrace | TLBracket | TRBracket | TColon | TComma | TValue json

datatype scan =
    Idle
  | InString string
  | InStringEsc string
  | InNumber string
  | InLiteral string json

definition begin_token :: "char \<Rightarrow> token list \<Rightarrow> (scan \<times> token list) option" where
  "begin_token c acc =
     (if is_space c then Some (Idle, acc)
      else if c = CHR ''{'' then Some (Idle, TLBrace # acc)
      else if c = CHR ''}'' then Some (Idle, TRBrace # acc)
      else if c = CHR ''['' then Some (Idle, TLBracket # acc)
      else if c = CHR '']'' then Some (Idle, TRBracket # acc)
      else if c = CHR '':'' then Some (Idle, TColon # acc)
      else if c = CHR '','' then Some (Idle, TComma # acc)
      else if c = dquote then Some (InString [], acc)
      else if c = CHR ''-'' \<or> is_digit c then Some (InNumber [c], acc)
      else if c = CHR ''t'' then Some (InLiteral ''rue'' (JBool True), acc)
      else if c = CHR ''f'' then Some (InLiteral ''alse'' (JBool False), acc)
      else if c = CHR ''n'' then Some (InLiteral ''ull'' JNull, acc)
      else None)"

text \<open>
  The strings held by \<open>InString\<close>, \<open>InStringEsc\<close> and \<open>InNumber\<close> are the bytes read
  so far, last first.
\<close>

fun scan_step :: "scan \<Rightarrow> token list \<Rightarrow> char \<Rightarrow> (scan \<times> token list) option" where
  "scan_step Idle acc c = begin_token c acc"
| "scan_step (InString s) acc c =
     (if c = dquote then
        (case unquote (rev s) of
           None \<Rightarrow> None
         | Some u \<Rightarrow> Some (Idle, TValue (JString (rev s)) # acc))
      else if c = backslash then Some (InStringEsc (c # s), acc)
      else if byte c < 32 then None
      else Some (InString (c # s), acc))"
| "scan_step (InStringEsc s) acc c = Some (InString (c # s), acc)"
| "scan_step (InNumber n) acc c =
     (if is_number_char c then Some (InNumber (c # n), acc)
      else if valid_number (rev n) then begin_token c (TValue (JNumber (rev n)) # acc)
      else None)"
| "scan_step (InLiteral r v) acc c =
     (case r of
        [] \<Rightarrow> None
      | x # r' \<Rightarrow>
          if c = x then (if r' = [] then Some (Idle, TValue v # acc) else Some (InLiteral r' v, acc))
          else None)"

fun scan_all :: "scan \<Rightarrow> token list \<Rightarrow> string \<Rightarrow> token list option" where
  "scan_all st acc [] =
     (case st of
        Idle \<Rightarrow> Some (rev acc)
      | InNumber n \<Rightarrow>
          if valid_number (rev n) then Some (rev (TValue (JNumber (rev n)) # acc)) else None
      | _ \<Rightarrow> None)"
| "scan_all st acc (c # cs) =
     (case scan_step st acc c of
        None \<Rightarrow> None
      | Some (st', acc') \<Rightarrow> scan_all st' acc' cs)"

subsection \<open>The parser\<close>

text \<open>
  The parser keeps the stack of the arrays and objects that are open, as the scanner's
  \<^verbatim>\<open>parseState\<close> does; the names of the states are the scanner's. An open array
  holds its elements so far, an open object its members so far and the key last read,
  both last first. The scanner refuses a nesting deeper than 10000.
\<close>

datatype frame = InArray "json list" | InObject "(string \<times> json) list" string

datatype expect =
    BeginValue
  | BeginValueOrEmpty
  | BeginStringOrEmpty
  | BeginString
  | ObjectKey
  | EndValue
  | EndTop json

definition maxNestingDepth :: nat where
  "maxNestingDepth = 10000"

fun end_value :: "json \<Rightarrow> frame list \<Rightarrow> expect \<times> frame list" where
  "end_value v [] = (EndTop v, [])"
| "end_value v (InArray xs # fs) = (EndValue, InArray (v # xs) # fs)"
| "end_value v (InObject ms k # fs) = (EndValue, InObject ((k, v) # ms) k # fs)"

fun begin_value :: "token \<Rightarrow> frame list \<Rightarrow> (expect \<times> frame list) option" where
  "begin_value (TValue v) fs = Some (end_value v fs)"
| "begin_value TLBracket fs =
     (if length fs < maxNestingDepth then Some (BeginValueOrEmpty, InArray [] # fs) else None)"
| "begin_value TLBrace fs =
     (if length fs < maxNestingDepth then Some (BeginStringOrEmpty, InObject [] [] # fs) else None)"
| "begin_value _ fs = None"

fun begin_key :: "token \<Rightarrow> frame list \<Rightarrow> (expect \<times> frame list) option" where
  "begin_key (TValue (JString raw)) (InObject ms k0 # fs) =
     (case unquote raw of
        None \<Rightarrow> None
      | Some k \<Rightarrow> Some (ObjectKey, InObject ms k # fs))"
| "begin_key _ _ = None"

fun end_array :: "frame list \<Rightarrow> (expect \<times> frame list) option" where
  "end_array (InArray xs # fs) = Some (end_value (JArray (rev xs)) fs)"
| "end_array _ = None"

fun end_object :: "frame list \<Rightarrow> (expect \<times> frame list) option" where
  "end_object (InObject ms k # fs) = Some (end_value (JObject (rev ms)) fs)"
| "end_object _ = None"

fun parse_step :: "expect \<times> frame list \<Rightarrow> token \<Rightarrow> (expect \<times> frame list) option" where
  "parse_step (BeginValue, fs) t = begin_value t fs"
| "parse_step (BeginValueOrEmpty, fs) t =
     (if t = TRBracket then end_array fs else begin_value t fs)"
| "parse_step (BeginStringOrEmpty, fs) t =
     (if t = TRBrace then end_object fs else begin_key t fs)"
| "parse_step (BeginString, fs) t = begin_key t fs"
| "parse_step (ObjectKey, fs) t = (if t = TColon then Some (BeginValue, fs) else None)"
| "parse_step (EndValue, fs) t =
     (case fs of
        [] \<Rightarrow> None
      | InArray xs # fs' \<Rightarrow>
          if t = TComma then Some (BeginValue, fs)
          else if t = TRBracket then end_array fs
          else None
      | InObject ms k # fs' \<Rightarrow>
          if t = TComma then Some (BeginString, fs)
          else if t = TRBrace then end_object fs
          else None)"
| "parse_step (EndTop v, fs) t = None"

fun parse_all :: "expect \<times> frame list \<Rightarrow> token list \<Rightarrow> json option" where
  "parse_all st [] = (case st of (EndTop v, []) \<Rightarrow> Some v | _ \<Rightarrow> None)"
| "parse_all st (t # ts) =
     (case parse_step st t of
        None \<Rightarrow> None
      | Some st' \<Rightarrow> parse_all st' ts)"

text \<open>
  \<open>json_parse body\<close> is the document that \<open>body\<close> is the text of, and \<open>None\<close> where
  \<^verbatim>\<open>json.Unmarshal\<close> answers with a \<^verbatim>\<open>SyntaxError\<close>.
\<close>

definition json_parse :: "string \<Rightarrow> json option" where
  "json_parse body =
     (case scan_all Idle [] body of
        None \<Rightarrow> None
      | Some ts \<Rightarrow> parse_all (BeginValue, []) ts)"

section \<open>Go values\<close>

subsection \<open>Errors\<close>

text \<open>
  The \<^verbatim>\<open>error\<close> values the operations return. What the HTTP layer reports is opaque
  to this package and carries a message only. encoding/json reports a
  \<^verbatim>\<open>SyntaxError\<close> for a text that is not JSON; its other errors (a JSON value of the
  wrong type for a Go field, a timestamp that \<^verbatim>\<open>time.Time\<close> rejects) are one
  \<open>DecodeError\<close> here, and a value that \<^verbatim>\<open>json.Marshal\<close> cannot encode is a
  \<open>MarshalError\<close>.
\<close>

datatype error = TransportError string | SyntaxError | DecodeError | MarshalError

subsection \<open>The empty interface\<close>

text \<open>
  The dynamic values of an \<^verbatim>\<open>interface{}\<close>: the nil interface, the five kinds of
  value that \<^verbatim>\<open>json.Unmarshal\<close> stores in one (\<^verbatim>\<open>bool\<close>, \<^verbatim>\<open>float64\<close>,
  \<^verbatim>\<open>string\<close>, \<^verbatim>\<open>[]interface{}\<close>, \<^verbatim>\<open>map[string]interface{}\<close>), and
  \<^verbatim>\<open>int\<close> for the values of every other Go type a caller may store.
  A \<^verbatim>\<open>float64\<close> is written as a JSON number literal that denotes it (the model has
  no floating-point arithmetic; NaN and the infinities have no literal and are left
  out). A map is its list of entries in the order of the keys.
\<close>

datatype any =
    ANil
  | ABool bool
  | AFloat64 string
  | AString string
  | ASlice "any list"
  | AMap "(string \<times> any) list"
  | AInt int

subsection \<open>time.Time\<close>

text \<open>
  A \<^verbatim>\<open>time.Time\<close> by what its RFC 3339 text shows: the civil date and time in the
  value's own zone, the nanosecond, and the offset of the zone from UTC in minutes. The
  monotonic clock reading and the name of the location are not modelled.
\<close>

record Time =
  year :: int
  month :: nat
  day :: nat
  hour :: nat
  minute :: nat
  second :: nat
  nanosecond :: nat
  zone :: int

definition zeroTime :: Time where
  "zeroTime = \<lparr>year = 1, month = 1, day = 1, hour = 0, minute = 0, second = 0,
                nanosecond = 0, zone = 0\<rparr>"

definition digit :: "nat \<Rightarrow> char" where
  "digit n = char_of (48 + n mod 10)"

definition pad2 :: "nat \<Rightarrow> string" where
  "pad2 n = [digit (n div 10), digit n]"

definition pad4 :: "nat \<Rightarrow> string" where
  "pad4 n = [digit (n div 1000), digit (n div 100), digit (n div 10), digit n]"

definition pad9 :: "nat \<Rightarrow> string" where
  "pad9 n = [digit (n div 100000000), digit (n div 10000000), digit (n div 1000000),
             digit (n div 100000), digit (n div 10000), digit (n div 1000),
             digit (n div 100), digit (n div 10), digit n]"

definition formatNano :: "nat \<Rightarrow> string" where
  "formatNano ns =
     (if ns = 0 then []
      else CHR ''.'' # rev (dropWhile (\<lambda>c. c = CHR ''0'') (rev (pad9 ns))))"

definition formatZone :: "int \<Rightarrow> string" where
  "formatZone z =
     (if z = 0 then ''Z''
      else (if z < 0 then CHR ''-'' else CHR ''+'') #
           pad2 (nat \<bar>z\<bar> div 60) @ CHR '':'' # pad2 (nat \<bar>z\<bar> mod 60))"

definition formatRFC3339Nano :: "Time \<Rightarrow> string" where
  "formatRFC3339Nano t =
     pad4 (nat (year t)) @ CHR ''-'' # pad2 (month t) @ CHR ''-'' # pad2 (day t) @
     CHR ''T'' # pad2 (hour t) @ CHR '':'' # pad2 (minute t) @ CHR '':'' # pad2 (second t) @
     formatNano (nanosecond t) @ formatZone (zone t)"

text \<open>
  \<^verbatim>\<open>Time.MarshalJSON\<close>: the RFC 3339 text with nanoseconds, as a JSON string; an
  error for a year outside 0..9999 or a zone offset of a day or more.
\<close>

definition Time_MarshalJSON :: "Time \<Rightarrow> error + json" where
  "Time_MarshalJSON t =
     (if year t < 0 \<or> 9999 < year t then Inl MarshalError
      else if 24 * 60 \<le> \<bar>zone t\<bar> then Inl MarshalError
      else Inr (JString (formatRFC3339Nano t)))"

definition num2 :: "char \<Rightarrow> char \<Rightarrow> nat option" where
  "num2 a b =
     (if is_digit a \<and> is_digit b then Some (10 * (byte a - 48) + (byte b - 48)) else None)"

definition num4 :: "char \<Rightarrow> char \<Rightarrow> char \<Rightarrow> char \<Rightarrow> nat option" where
  "num4 a b c d =
     (case (num2 a b, num2 c d) of
        (Some x, Some y) \<Rightarrow> Some (100 * x + y)
      | _ \<Rightarrow> None)"

definition daysIn :: "nat \<Rightarrow> nat \<Rightarrow> nat" where
  "daysIn m y =
     (if m = 2 then (if y mod 4 = 0 \<and> (y mod 100 \<noteq> 0 \<or> y mod 400 = 0) then 29 else 28)
      else if m = 4 \<or> m = 6 \<or> m = 9 \<or> m = 11 then 30
      else 31)"

definition digits_value :: "string \<Rightarrow> nat" where
  "digits_value ds = foldl (\<lambda>n c. 10 * n + (byte c - 48)) 0 ds"

text \<open>
  The fraction of a second: a dot and at least one digit; the first nine digits count.
\<close>

definition parseNanoseconds :: "string \<Rightarrow> nat \<times> string" where
  "parseNanoseconds s =
     (case s of
        dot # d # r \<Rightarrow>
          if dot = CHR ''.'' \<and> is_digit d then
            (digits_value (take 9 (takeWhile is_digit (d # r) @ replicate 9 (CHR ''0''))),
             dropWhile is_digit (d # r))
          else (0, s)
      | _ \<Rightarrow> (0, s))"

definition parseZone :: "string \<Rightarrow> int option" where
  "parseZone s =
     (case s of
        [z] \<Rightarrow> if z = CHR ''Z'' then Some 0 else None
      | [sg, h1, h2, c, m1, m2] \<Rightarrow>
          (case (num2 h1 h2, num2 m1 m2) of
             (Some hr, Some mm) \<Rightarrow>
               if (sg = CHR ''+'' \<or> sg = CHR ''-'') \<and> c = CHR '':'' \<and> hr \<le> 23 \<and> mm \<le> 59
               then Some (if sg = CHR ''-'' then - int (hr * 60 + mm) else int (hr * 60 + mm))
               else None
           | _ \<Rightarrow> None)
      | _ \<Rightarrow> None)"

text \<open>
  \<^verbatim>\<open>parseRFC3339\<close> of package time: the timestamps of RFC 3339, which every
  version of the library accepts.
\<close>

definition parseRFC3339 :: "string \<Rightarrow> Time option" where
  "parseRFC3339 s =
     (case s of
        y1 # y2 # y3 # y4 # s1 # m1 # m2 # s2 # d1 # d2 # s3 # h1 # h2 # s4 # mi1 # mi2 #
        s5 # se1 # se2 # rest \<Rightarrow>
          (case (num4 y1 y2 y3 y4, num2 m1 m2, num2 d1 d2, num2 h1 h2, num2 mi1 mi2,
                 num2 se1 se2) of
             (Some yy, Some mo, Some dd, Some hh, Some mi, Some ss) \<Rightarrow>
               if s1 = CHR ''-'' \<and> s2 = CHR ''-'' \<and> s3 = CHR ''T'' \<and> s4 = CHR '':'' \<and>
                  s5 = CHR '':'' \<and> 1 \<le> mo \<and> mo \<le> 12 \<and> 1 \<le> dd \<and> dd \<le> daysIn mo yy \<and>
                  hh \<le> 23 \<and> mi \<le> 59 \<and> ss \<le> 59
               then
                 (case parseNanoseconds rest of
                    (ns, rest') \<Rightarrow>
                      (case parseZone rest' of
                         None \<Rightarrow> None
                       | Some z \<Rightarrow>
                           Some \<lparr>year = int yy, month = mo, day = dd, hour = hh, minute = mi,
                                 second = ss, nanosecond = ns, zone = z\<rparr>))
               else None
           | _ \<Rightarrow> None)
      | _ \<Rightarrow> None)"

section \<open>The data model of webhook.go\<close>

text \<open>
  The structs of the source file, field for field. A pointer to a nested struct is an
  optional value (\<open>None\<close> is nil); a slice is a list, and the nil slice is the empty
  list.
\<close>

record WebhookAuthentication =
  Type :: string
  Data :: any
  AddPosition :: string

record WebhookSigningSecret =
  Algorithm :: string
  Secret :: string

record Webhook =
  Authentication :: "WebhookAuthentication option"
  CreatedAt :: Time
  CreatedBy :: string
  Description :: string
  Endpoint :: string
  ExternalSource :: any
  HTTPMethod :: string
  ID :: string
  Name :: string
  RequestFormat :: string
  SigningSecret :: "WebhookSigningSecret option"
  Status :: string
  Subscriptions :: "string list"
  UpdatedAt :: Time
  UpdatedBy :: string

definition zeroWebhookAuthentication :: WebhookAuthentication where
  "zeroWebhookAuthentication = \<lparr>Type = [], Data = ANil, AddPosition = []\<rparr>"

definition zeroWebhookSigningSecret :: WebhookSigningSecret where
  "zeroWebhookSigningSecret = \<lparr>Algorithm = [], Secret = []\<rparr>"

definition zeroWebhook :: Webhook where
  "zeroWebhook =
     \<lparr>Authentication = None, CreatedAt = zeroTime, CreatedBy = [], Description = [],
      Endpoint = [], ExternalSource = ANil, HTTPMethod = [], ID = [], Name = [],
      RequestFormat = [], SigningSecret = None, Status = [], Subscriptions = [],
      UpdatedAt = zeroTime, UpdatedBy = []\<rparr>"

text \<open>
  \<^verbatim>\<open>WebhookListOptions\<close> embeds \<^verbatim>\<open>PageOptions\<close>, which src/ does not declare.
  Modelled from the spec: \<^verbatim>\<open>PageOptions\<close>, the generic page-cursor mechanism shared
  across the API, is the list of query parameters (name and value) that it contributes;
  its zero value contributes none.
\<close>

record WebhookListOptions =
  PageOptions :: "(string \<times> string) list"
  FilterNameContains :: string
  FilterStatus :: string
  PageAfter :: string
  PageBefore :: string
  PageSize :: string
  Sort :: string

definition zeroWebhookListOptions :: WebhookListOptions where
  "zeroWebhookListOptions =
     \<lparr>PageOptions = [], FilterNameContains = [], FilterStatus = [], PageAfter = [],
      PageBefore = [], PageSize = [], Sort = []\<rparr>"

section \<open>json.Unmarshal\<close>

subsection \<open>Keys and fields\<close>

text \<open>
  "To unmarshal JSON into a struct, Unmarshal matches incoming object keys to the keys
  used by Marshal (either the struct field name or its tag), preferring an exact match
  but also accepting a case-insensitive match." The match is that of
  \<^verbatim>\<open>bytes.EqualFold\<close>; against a name in ASCII it folds the letters a..z, the
  Kelvin sign U+212A (with k) and the long s U+017F (with s). The names of one struct of
  this file all differ under the folding, so a key names at most one field.
\<close>

fun foldName :: "string \<Rightarrow> string" where
  "foldName [] = []"
| "foldName (c # cs) =
     (if 97 \<le> byte c \<and> byte c \<le> 122 then char_of (byte c - 32) # foldName cs
      else if c = CHR 0xE2 then
        (case cs of
           a # b # r \<Rightarrow>
             if a = CHR 0x84 \<and> b = CHR 0xAA then CHR ''K'' # foldName r else c # foldName cs
         | _ \<Rightarrow> c # foldName cs)
      else if c = CHR 0xC5 then
        (case cs of
           a # r \<Rightarrow> if a = CHR 0xBF then CHR ''S'' # foldName r else c # foldName cs
         | _ \<Rightarrow> c # foldName cs)
      else c # foldName cs)"

definition names :: "string \<Rightarrow> string \<Rightarrow> bool" where
  "names key field \<longleftrightarrow> key = field \<or> foldName key = foldName field"

subsection \<open>Values\<close>

text \<open>
  Every function takes the Go value that the target holds before the call, since
  \<^verbatim>\<open>json.Unmarshal\<close> writes into what is there: a JSON null leaves a string, a
  struct or a \<^verbatim>\<open>time.Time\<close> as it is and sets a pointer, a slice or an interface
  to nil; an object is decoded into the struct a pointer already points to.
\<close>

definition unmarshal_string :: "string \<Rightarrow> json \<Rightarrow> error + string" where
  "unmarshal_string cur j =
     (case j of
        JNull \<Rightarrow> Inr cur
      | JString raw \<Rightarrow> (case unquote raw of None \<Rightarrow> Inl DecodeError | Some s \<Rightarrow> Inr s)
      | _ \<Rightarrow> Inl DecodeError)"

text \<open>
  \<^verbatim>\<open>Time.UnmarshalJSON\<close>: null leaves the time as it is, a value that is not a
  string is an error, and a string is parsed as it stands between the quotes, with no
  escape undone. Which spellings the parser of package time accepts beyond those of
  RFC 3339 differs between the versions of the library (a one-digit hour, a comma before
  the fraction, a zone of 24 hours), so the parser is a parameter \<open>parse\<close> of the
  decoder; \<open>parseRFC3339\<close> above is the strict one.
\<close>

definition unmarshal_Time :: "(string \<Rightarrow> Time option) \<Rightarrow> Time \<Rightarrow> json \<Rightarrow> error + Time" where
  "unmarshal_Time parse cur j =
     (case j of
        JNull \<Rightarrow> Inr cur
      | JString raw \<Rightarrow> (case parse raw of None \<Rightarrow> Inl DecodeError | Some t \<Rightarrow> Inr t)
      | _ \<Rightarrow> Inl DecodeError)"

text \<open>
  A number stored in an \<^verbatim>\<open>interface{}\<close> is a \<^verbatim>\<open>float64\<close>;
  \<^verbatim>\<open>strconv.ParseFloat\<close> refuses a literal whose value rounds to an infinity, that
  is, one of magnitude \<open>2^1024 - 2^970\<close> or more. \<open>literal_parts\<close> reads a literal
  as a natural number times a power of ten.
\<close>

definition literal_parts :: "string \<Rightarrow> nat \<times> int" where
  "literal_parts s =
     (let s0 = (case s of [] \<Rightarrow> [] | c # r \<Rightarrow> if c = CHR ''-'' then r else s);
          ip = takeWhile is_digit s0;
          r1 = dropWhile is_digit s0;
          fp = (case r1 of [] \<Rightarrow> [] | c # r \<Rightarrow> if c = CHR ''.'' then takeWhile is_digit r else []);
          r2 = (case r1 of [] \<Rightarrow> [] | c # r \<Rightarrow> if c = CHR ''.'' then dropWhile is_digit r else r1);
          ex = (case r2 of
                  [] \<Rightarrow> 0
                | e # r \<Rightarrow>
                    (case r of
                       [] \<Rightarrow> 0
                     | sg # ds \<Rightarrow>
                         if sg = CHR ''-'' then - int (digits_value ds)
                         else if sg = CHR ''+'' then int (digits_value ds)
                         else int (digits_value r)))
      in (digits_value (ip @ fp), ex - int (length fp)))"

definition float64_overflows :: "string \<Rightarrow> bool" where
  "float64_overflows lit =
     (case literal_parts lit of
        (m, e) \<Rightarrow>
          if 0 \<le> e then 2 ^ 1024 - 2 ^ 970 \<le> m * 10 ^ nat e
          else (2 ^ 1024 - 2 ^ 970) * 10 ^ nat (- e) \<le> m)"

fun map_put :: "string \<Rightarrow> any \<Rightarrow> (string \<times> any) list \<Rightarrow> (string \<times> any) list" where
  "map_put k v [] = [(k, v)]"
| "map_put k v ((k', v') # m) =
     (if k = k' then (k, v) # m
      else if k < k' then (k, v) # (k', v') # m
      else (k', v') # map_put k v m)"

text \<open>
  Into an \<^verbatim>\<open>interface{}\<close>: an array becomes a \<^verbatim>\<open>[]interface{}\<close>, an object a
  \<^verbatim>\<open>map[string]interface{}\<close> in which a later member replaces an earlier one of
  the same key.
\<close>

fun any_of_json :: "json \<Rightarrow> error + any"
  and anys_of_json :: "json list \<Rightarrow> error + any list"
  and entries_of_json :: "(string \<times> any) list \<Rightarrow> (string \<times> json) list \<Rightarrow> error + (string \<times> any) list"
where
  "any_of_json JNull = Inr ANil"
| "any_of_json (JBool b) = Inr (ABool b)"
| "any_of_json (JNumber n) = (if float64_overflows n then Inl DecodeError else Inr (AFloat64 n))"
| "any_of_json (JString raw) =
     (case unquote raw of None \<Rightarrow> Inl DecodeError | Some s \<Rightarrow> Inr (AString s))"
| "any_of_json (JArray js) = map_sum id ASlice (anys_of_json js)"
| "any_of_json (JObject ms) = map_sum id AMap (entries_of_json [] ms)"
| "anys_of_json [] = Inr []"
| "anys_of_json (j # js) =
     (case any_of_json j of
        Inl e \<Rightarrow> Inl e
      | Inr a \<Rightarrow> map_sum id ((#) a) (anys_of_json js))"
| "entries_of_json m [] = Inr m"
| "entries_of_json m ((k, j) # ms) =
     (case any_of_json j of
        Inl e \<Rightarrow> Inl e
      | Inr a \<Rightarrow> entries_of_json (map_put k a m) ms)"

definition unmarshal_any :: "any \<Rightarrow> json \<Rightarrow> error + any" where
  "unmarshal_any cur j = any_of_json j"

text \<open>
  The members of an object go into a struct one after the other, in the order of the
  text; \<open>f\<close> stores one member and leaves the struct as it is when the key names no
  field.
\<close>

fun unmarshal_fields :: "('a \<Rightarrow> string \<times> json \<Rightarrow> error + 'a) \<Rightarrow> 'a \<Rightarrow> (string \<times> json) list \<Rightarrow> error + 'a" where
  "unmarshal_fields f x [] = Inr x"
| "unmarshal_fields f x (m # ms) =
     (case f x m of
        Inl e \<Rightarrow> Inl e
      | Inr x' \<Rightarrow> unmarshal_fields f x' ms)"

definition unmarshal_struct :: "('a \<Rightarrow> string \<times> json \<Rightarrow> error + 'a) \<Rightarrow> 'a \<Rightarrow> json \<Rightarrow> error + 'a" where
  "unmarshal_struct f cur j =
     (case j of
        JNull \<Rightarrow> Inr cur
      | JObject ms \<Rightarrow> unmarshal_fields f cur ms
      | _ \<Rightarrow> Inl DecodeError)"

definition unmarshal_pointer :: "('a \<Rightarrow> string \<times> json \<Rightarrow> error + 'a) \<Rightarrow> 'a \<Rightarrow> 'a option \<Rightarrow> json \<Rightarrow> error + 'a option" where
  "unmarshal_pointer f zero cur j =
     (case j of
        JNull \<Rightarrow> Inr None
      | JObject ms \<Rightarrow>
          map_sum id Some (unmarshal_fields f (case cur of None \<Rightarrow> zero | Some x \<Rightarrow> x) ms)
      | _ \<Rightarrow> Inl DecodeError)"

text \<open>
  Into a slice: element \<open>i\<close> of the array is decoded into element \<open>i\<close> of the slice that
  is there, or into a zero value past its end. (The model has no capacity: what an
  earlier, longer decoding left behind the end of the slice is taken to be zero.)
\<close>

fun unmarshal_elements :: "('a \<Rightarrow> json \<Rightarrow> error + 'a) \<Rightarrow> 'a \<Rightarrow> 'a list \<Rightarrow> json list \<Rightarrow> error + 'a list" where
  "unmarshal_elements f zero old [] = Inr []"
| "unmarshal_elements f zero old (j # js) =
     (case f (case old of [] \<Rightarrow> zero | x # _ \<Rightarrow> x) j of
        Inl e \<Rightarrow> Inl e
      | Inr y \<Rightarrow> map_sum id ((#) y) (unmarshal_elements f zero (drop 1 old) js))"

definition unmarshal_slice :: "('a \<Rightarrow> json \<Rightarrow> error + 'a) \<Rightarrow> 'a \<Rightarrow> 'a list \<Rightarrow> json \<Rightarrow> error + 'a list" where
  "unmarshal_slice f zero cur j =
     (case j of
        JNull \<Rightarrow> Inr []
      | JArray js \<Rightarrow> unmarshal_elements f zero cur js
      | _ \<Rightarrow> Inl DecodeError)"

subsection \<open>The structs\<close>

definition unmarshal_WebhookAuthentication_field :: "WebhookAuthentication \<Rightarrow> string \<times> json \<Rightarrow> error + WebhookAuthentication" where
  "unmarshal_WebhookAuthentication_field x m =
     (case m of
        (k, v) \<Rightarrow>
          if names k ''type'' then
            map_sum id (\<lambda>y. x\<lparr>Type := y\<rparr>) (unmarshal_string (Type x) v)
          else if names k ''data'' then
            map_sum id (\<lambda>y. x\<lparr>Data := y\<rparr>) (unmarshal_any (Data x) v)
          else if names k ''add_position'' then
            map_sum id (\<lambda>y. x\<lparr>AddPosition := y\<rparr>) (unmarshal_string (AddPosition x) v)
          else Inr x)"

definition unmarshal_WebhookSigningSecret_field :: "WebhookSigningSecret \<Rightarrow> string \<times> json \<Rightarrow> error + WebhookSigningSecret" where
  "unmarshal_WebhookSigningSecret_field x m =
     (case m of
        (k, v) \<Rightarrow>
          if names k ''algorithm'' then
            map_sum id (\<lambda>y. x\<lparr>Algorithm := y\<rparr>) (unmarshal_string (Algorithm x) v)
          else if names k ''secret'' then
            map_sum id (\<lambda>y. x\<lparr>Secret := y\<rparr>) (unmarshal_string (Secret x) v)
          else Inr x)"

definition unmarshal_Webhook_field :: "(string \<Rightarrow> Time option) \<Rightarrow> Webhook \<Rightarrow> string \<times> json \<Rightarrow> error + Webhook" where
  "unmarshal_Webhook_field parse w m =
     (case m of
        (k, v) \<Rightarrow>
          if names k ''authentication'' then
            map_sum id (\<lambda>y. w\<lparr>Authentication := y\<rparr>)
              (unmarshal_pointer unmarshal_WebhookAuthentication_field zeroWebhookAuthentication
                 (Authentication w) v)
          else if names k ''created_at'' then
            map_sum id (\<lambda>y. w\<lparr>CreatedAt := y\<rparr>) (unmarshal_Time parse (CreatedAt w) v)
          else if names k ''created_by'' then
            map_sum id (\<lambda>y. w\<lparr>CreatedBy := y\<rparr>) (unmarshal_string (CreatedBy w) v)
          else if names k ''description'' then
            map_sum id (\<lambda>y. w\<lparr>Description := y\<rparr>) (unmarshal_string (Description w) v)
          else if names k ''endpoint'' then
            map_sum id (\<lambda>y. w\<lparr>Endpoint := y\<rparr>) (unmarshal_string (Endpoint w) v)
          else if names k ''external_source'' then
            map_sum id (\<lambda>y. w\<lparr>ExternalSource := y\<rparr>) (unmarshal_any (ExternalSource w) v)
          else if names k ''http_method'' then
            map_sum id (\<lambda>y. w\<lparr>HTTPMethod := y\<rparr>) (unmarshal_string (HTTPMethod w) v)
          else if names k ''id'' then
            map_sum id (\<lambda>y. w\<lparr>ID := y\<rparr>) (unmarshal_string (ID w) v)
          else if names k ''name'' then
            map_sum id (\<lambda>y. w\<lparr>Name := y\<rparr>) (unmarshal_string (Name w) v)
          else if names k ''request_format'' then
            map_sum id (\<lambda>y. w\<lparr>RequestFormat := y\<rparr>) (unmarshal_string (RequestFormat w) v)
          else if names k ''signing_secret'' then
            map_sum id (\<lambda>y. w\<lparr>SigningSecret := y\<rparr>)
              (unmarshal_pointer unmarshal_WebhookSigningSecret_field zeroWebhookSigningSecret
                 (SigningSecret w) v)
          else if names k ''status'' then
            map_sum id (\<lambda>y. w\<lparr>Status := y\<rparr>) (unmarshal_string (Status w) v)
          else if names k ''subscriptions'' then
            map_sum id (\<lambda>y. w\<lparr>Subscriptions := y\<rparr>)
              (unmarshal_slice unmarshal_string [] (Subscriptions w) v)
          else if names k ''updated_at'' then
            map_sum id (\<lambda>y. w\<lparr>UpdatedAt := y\<rparr>) (unmarshal_Time parse (UpdatedAt w) v)
          else if names k ''updated_by'' then
            map_sum id (\<lambda>y. w\<lparr>UpdatedBy := y\<rparr>) (unmarshal_string (UpdatedBy w) v)
          else Inr w)"

section \<open>json.Marshal\<close>

text \<open>
  \<^verbatim>\<open>json.Marshal\<close>, up to the JSON document it writes (the bytes of the text are
  not modelled beyond the literals). The members of a struct come in the
  order of its fields. A field tagged \<^verbatim>\<open>omitempty\<close> is left out when it is empty:
  "false, 0, a nil pointer, a nil interface value, and any empty array, slice, map, or
  string"; a struct such as \<^verbatim>\<open>time.Time\<close> is never empty.
\<close>

text \<open>
  The literal that \<^verbatim>\<open>json.Marshal\<close> writes for a string (\<^verbatim>\<open>appendString\<close>,
  with the escaping of HTML that \<^verbatim>\<open>Marshal\<close> turns on). The quote and the
  backslash get a backslash; backspace, form feed, newline, carriage return and tab
  their short escapes; the other control characters and \<^verbatim>\<open><\<close>, \<^verbatim>\<open>>\<close>,
  \<^verbatim>\<open>&\<close> a \<^verbatim>\<open>\u00XX\<close>; U+2028 and U+2029 a \<^verbatim>\<open>\u202X\<close>; a byte that is
  not the start of well-formed UTF-8 becomes \<^verbatim>\<open>\ufffd\<close>. All else is copied.
\<close>

definition lowerhex :: "nat \<Rightarrow> char" where
  "lowerhex n = (if n < 10 then char_of (48 + n) else char_of (87 + n))"

definition escape_ascii :: "char \<Rightarrow> string" where
  "escape_ascii c =
     (if c = dquote \<or> c = backslash then [backslash, c]
      else if c = CHR 0x08 then [backslash, CHR ''b'']
      else if c = CHR 0x0C then [backslash, CHR ''f'']
      else if c = CHR 0x0A then [backslash, CHR ''n'']
      else if c = CHR 0x0D then [backslash, CHR ''r'']
      else if c = CHR 0x09 then [backslash, CHR ''t'']
      else if byte c < 32 \<or> c = CHR ''<'' \<or> c = CHR ''>'' \<or> c = CHR ''&'' then
        [backslash, CHR ''u'', CHR ''0'', CHR ''0'', lowerhex (byte c div 16), lowerhex (byte c mod 16)]
      else [c])"

definition escaped_replacement :: string where
  "escaped_replacement = [backslash, CHR ''u'', CHR ''f'', CHR ''f'', CHR ''f'', CHR ''d'']"

definition escape3 :: "char \<Rightarrow> char \<Rightarrow> char \<Rightarrow> string" where
  "escape3 b0 b1 b2 =
     (if b0 = CHR 0xE2 \<and> b1 = CHR 0x80 \<and> (b2 = CHR 0xA8 \<or> b2 = CHR 0xA9) then
        [backslash, CHR ''u'', CHR ''2'', CHR ''0'', CHR ''2'', lowerhex (byte b2 mod 16)]
      else [b0, b1, b2])"

fun encodeString :: "string \<Rightarrow> string" where
  "encodeString [] = []"
| "encodeString (b0 # bs) =
     (if byte b0 < 128 then escape_ascii b0 @ encodeString bs
      else if 194 \<le> byte b0 \<and> byte b0 \<le> 223 then
        (case bs of
           b1 # r1 \<Rightarrow>
             if is_cont b1 then b0 # b1 # encodeString r1
             else escaped_replacement @ encodeString bs
         | [] \<Rightarrow> escaped_replacement)
      else if 224 \<le> byte b0 \<and> byte b0 \<le> 239 then
        (case bs of
           b1 # b2 # r2 \<Rightarrow>
             if second_ok b0 b1 \<and> is_cont b2 then escape3 b0 b1 b2 @ encodeString r2
             else escaped_replacement @ encodeString bs
         | _ \<Rightarrow> escaped_replacement @ encodeString bs)
      else if 240 \<le> byte b0 \<and> byte b0 \<le> 244 then
        (case bs of
           b1 # b2 # b3 # r3 \<Rightarrow>
             if second_ok b0 b1 \<and> is_cont b2 \<and> is_cont b3
             then b0 # b1 # b2 # b3 # encodeString r3
             else escaped_replacement @ encodeString bs
         | _ \<Rightarrow> escaped_replacement @ encodeString bs)
      else escaped_replacement @ encodeString bs)"

fun decimal :: "nat \<Rightarrow> string" where
  "decimal n = (if n < 10 then [digit n] else decimal (n div 10) @ [digit n])"

declare decimal.simps [simp del]

fun marshal_any :: "any \<Rightarrow> json"
  and marshal_anys :: "any list \<Rightarrow> json list"
  and marshal_entries :: "(string \<times> any) list \<Rightarrow> (string \<times> json) list"
where
  "marshal_any ANil = JNull"
| "marshal_any (ABool b) = JBool b"
| "marshal_any (AFloat64 n) = JNumber n"
| "marshal_any (AString s) = JString (encodeString s)"
| "marshal_any (ASlice xs) = JArray (marshal_anys xs)"
| "marshal_any (AMap m) = JObject (marshal_entries m)"
| "marshal_any (AInt i) =
     JNumber (if i < 0 then CHR ''-'' # decimal (nat (- i)) else decimal (nat i))"
| "marshal_anys [] = []"
| "marshal_anys (x # xs) = marshal_any x # marshal_anys xs"
| "marshal_entries [] = []"
| "marshal_entries ((k, x) # m) = (toValidUTF8 k, marshal_any x) # marshal_entries m"

definition marshal_string :: "string \<Rightarrow> json" where
  "marshal_string s = JString (encodeString s)"

definition marshal_WebhookAuthentication :: "WebhookAuthentication \<Rightarrow> json" where
  "marshal_WebhookAuthentication a =
     JObject [(''type'', marshal_string (Type a)),
              (''data'', marshal_any (Data a)),
              (''add_position'', marshal_string (AddPosition a))]"

definition marshal_WebhookSigningSecret :: "WebhookSigningSecret \<Rightarrow> json" where
  "marshal_WebhookSigningSecret x =
     JObject [(''algorithm'', marshal_string (Algorithm x)),
              (''secret'', marshal_string (Secret x))]"

definition omitempty_string :: "string \<Rightarrow> string \<Rightarrow> (string \<times> json) list" where
  "omitempty_string k s = (if s = [] then [] else [(k, marshal_string s)])"

definition marshal_Webhook :: "Webhook \<Rightarrow> error + json" where
  "marshal_Webhook w =
     (case Time_MarshalJSON (CreatedAt w) of
        Inl e \<Rightarrow> Inl e
      | Inr created_at \<Rightarrow>
          (case Time_MarshalJSON (UpdatedAt w) of
             Inl e \<Rightarrow> Inl e
           | Inr updated_at \<Rightarrow>
               Inr (JObject
                 ((case Authentication w of
                     None \<Rightarrow> []
                   | Some a \<Rightarrow> [(''authentication'', marshal_WebhookAuthentication a)]) @
                  [(''created_at'', created_at)] @
                  omitempty_string ''created_by'' (CreatedBy w) @
                  omitempty_string ''description'' (Description w) @
                  [(''endpoint'', marshal_string (Endpoint w))] @
                  (if ExternalSource w = ANil then []
                   else [(''external_source'', marshal_any (ExternalSource w))]) @
                  [(''http_method'', marshal_string (HTTPMethod w))] @
                  omitempty_string ''id'' (ID w) @
                  [(''name'', marshal_string (Name w))] @
                  [(''request_format'', marshal_string (RequestFormat w))] @
                  (case SigningSecret w of
                     None \<Rightarrow> []
                   | Some x \<Rightarrow> [(''signing_secret'', marshal_WebhookSigningSecret x)]) @
                  [(''status'', marshal_string (Status w))] @
                  (if Subscriptions w = [] then []
                   else [(''subscriptions'', JArray (map marshal_string (Subscriptions w)))]) @
                  [(''updated_at'', updated_at)] @
                  omitempty_string ''updated_by'' (UpdatedBy w)))))"

section \<open>Memory, the request bodies and the client\<close>

text \<open>
  The operations take and return pointers to \<^verbatim>\<open>Webhook\<close>. The objects they point
  to live in a memory of cells; the addresses below \<open>next_addr\<close> are allocated, and
  \<^verbatim>\<open>new(Webhook)\<close> takes the next one.
\<close>

type_synonym addr = nat

record memory =
  cells :: "addr \<Rightarrow> Webhook"
  next_addr :: addr

definition new_Webhook :: "memory \<Rightarrow> addr \<times> memory" where
  "new_Webhook mem =
     (next_addr mem,
      \<lparr>cells = (cells mem)(next_addr mem := zeroWebhook), next_addr = Suc (next_addr mem)\<rparr>)"

text \<open>
  The anonymous structs of the operations:
  \<^verbatim>\<open>struct { Webhook *Webhook `json:"webhook"` }\<close>,
  \<^verbatim>\<open>struct { SigningSecret *WebhookSigningSecret `json:"signing_secret"` }\<close> and
  \<^verbatim>\<open>struct { Webhooks []Webhook `json:"webhooks"`; Page }\<close>.
\<close>

record webhook_body =
  body_Webhook :: "addr option"

record signing_secret_body =
  body_SigningSecret :: "WebhookSigningSecret option"

record 'p webhooks_body =
  body_Webhooks :: "Webhook list"
  body_Page :: 'p

definition marshal_webhook_body :: "memory \<Rightarrow> webhook_body \<Rightarrow> error + json" where
  "marshal_webhook_body mem d =
     (case body_Webhook d of
        None \<Rightarrow> Inr (JObject [(''webhook'', JNull)])
      | Some a \<Rightarrow> map_sum id (\<lambda>j. JObject [(''webhook'', j)]) (marshal_Webhook (cells mem a)))"

text \<open>
  The pointer of a \<open>webhook_body\<close>: null makes it nil; an object is decoded into the
  \<^verbatim>\<open>Webhook\<close> it points to, which is allocated first when the pointer is nil.
\<close>

definition unmarshal_webhook_body_field :: "(string \<Rightarrow> Time option) \<Rightarrow> webhook_body \<times> memory \<Rightarrow> string \<times> json \<Rightarrow> error + webhook_body \<times> memory" where
  "unmarshal_webhook_body_field parse s m =
     (case s of
        (r, mem) \<Rightarrow>
          (case m of
             (k, v) \<Rightarrow>
               if names k ''webhook'' then
                 (case v of
                    JNull \<Rightarrow> Inr (r\<lparr>body_Webhook := None\<rparr>, mem)
                  | JObject ms \<Rightarrow>
                      (case (case body_Webhook r of
                               None \<Rightarrow> new_Webhook mem
                             | Some a \<Rightarrow> (a, mem)) of
                         (a, mem') \<Rightarrow>
                           (case unmarshal_fields (unmarshal_Webhook_field parse) (cells mem' a) ms of
                              Inl e \<Rightarrow> Inl e
                            | Inr w \<Rightarrow>
                                Inr (r\<lparr>body_Webhook := Some a\<rparr>,
                                     mem'\<lparr>cells := (cells mem')(a := w)\<rparr>)))
                  | _ \<Rightarrow> Inl DecodeError)
               else Inr (r, mem)))"

definition unmarshal_signing_secret_body_field :: "signing_secret_body \<Rightarrow> string \<times> json \<Rightarrow> error + signing_secret_body" where
  "unmarshal_signing_secret_body_field r m =
     (case m of
        (k, v) \<Rightarrow>
          if names k ''signing_secret'' then
            map_sum id (\<lambda>y. r\<lparr>body_SigningSecret := y\<rparr>)
              (unmarshal_pointer unmarshal_WebhookSigningSecret_field zeroWebhookSigningSecret
                 (body_SigningSecret r) v)
          else Inr r)"

text \<open>
  \<^verbatim>\<open>json.Unmarshal(body, &target)\<close> for a struct: a \<^verbatim>\<open>SyntaxError\<close> unless the
  whole text is one JSON value; then null leaves the struct as it is, an object is
  stored member by member, and any other value is an error.
\<close>

definition json_Unmarshal :: "('a \<Rightarrow> string \<times> json \<Rightarrow> error + 'a) \<Rightarrow> 'a \<Rightarrow> string \<Rightarrow> error + 'a" where
  "json_Unmarshal f target body =
     (case json_parse body of
        None \<Rightarrow> Inl SyntaxError
      | Some j \<Rightarrow> unmarshal_struct f target j)"

text \<open>
  What the methods use and src/ does not declare is a parameter of the model: the
  transport methods \<^verbatim>\<open>z.get\<close>, \<^verbatim>\<open>z.post\<close>, \<^verbatim>\<open>z.put\<close> and
  \<^verbatim>\<open>z.delete\<close> of \<^verbatim>\<open>*Client\<close>, and the struct \<^verbatim>\<open>Page\<close>, of which the model
  needs the zero value and how a member of the response that does not name
  \<^verbatim>\<open>webhooks\<close> is stored in it. The parser of timestamps that the program is
  linked with goes with them. \<open>'n\<close> is the state of whatever is behind the
  transport (the network, the server, the context passed along); a transport method
  reads the memory and cannot write it.
\<close>

record ('n, 'p) Client =
  z_get :: "string \<Rightarrow> 'n \<Rightarrow> (error + string) \<times> 'n"
  z_post :: "string \<Rightarrow> webhook_body \<Rightarrow> memory \<Rightarrow> 'n \<Rightarrow> (error + string) \<times> 'n"
  z_put :: "string \<Rightarrow> webhook_body \<Rightarrow> memory \<Rightarrow> 'n \<Rightarrow> (error + string) \<times> 'n"
  z_delete :: "string \<Rightarrow> 'n \<Rightarrow> error option \<times> 'n"
  Page_zero :: 'p
  Page_field :: "'p \<Rightarrow> string \<times> json \<Rightarrow> error + 'p"
  parseTime :: "string \<Rightarrow> Time option"

definition unmarshal_webhooks_body_field :: "('n, 'p) Client \<Rightarrow> 'p webhooks_body \<Rightarrow> string \<times> json \<Rightarrow> error + 'p webhooks_body" where
  "unmarshal_webhooks_body_field z d m =
     (case m of
        (k, v) \<Rightarrow>
          if names k ''webhooks'' then
            map_sum id (\<lambda>y. d\<lparr>body_Webhooks := y\<rparr>)
              (unmarshal_slice (unmarshal_struct (unmarshal_Webhook_field (parseTime z))) zeroWebhook
                 (body_Webhooks d) v)
          else map_sum id (\<lambda>y. d\<lparr>body_Page := y\<rparr>) (Page_field z (body_Page d) m))"

section \<open>The query string\<close>

text \<open>
  Modelled from the spec: \<^verbatim>\<open>addOptions\<close>, the generic encoder of an options struct
  into a query string, which src/ does not contain. The \<^verbatim>\<open>url\<close> tags of
  \<^verbatim>\<open>WebhookListOptions\<close> give the parameter names and \<^verbatim>\<open>omitempty\<close>; the
  parameters of the embedded struct follow those of the fields; the query string lists
  the parameters in the order of their names, each name and value escaped as
  \<^verbatim>\<open>url.QueryEscape\<close> does, and is appended to the path after a question mark
  unless it is empty.
\<close>

definition url_tagged :: "string \<Rightarrow> string \<Rightarrow> (string \<times> string) list" where
  "url_tagged k s = (if s = [] then [] else [(k, s)])"

definition query_Values :: "WebhookListOptions \<Rightarrow> (string \<times> string) list" where
  "query_Values opts =
     url_tagged ''filter[name_contains]'' (FilterNameContains opts) @
     url_tagged ''filter[status]'' (FilterStatus opts) @
     url_tagged ''page[after]'' (PageAfter opts) @
     url_tagged ''page[before]'' (PageBefore opts) @
     url_tagged ''page[size]'' (PageSize opts) @
     url_tagged ''sort'' (Sort opts) @
     PageOptions opts"

definition unreserved :: "char \<Rightarrow> bool" where
  "unreserved c \<longleftrightarrow>
     (97 \<le> byte c \<and> byte c \<le> 122) \<or> (65 \<le> byte c \<and> byte c \<le> 90) \<or> is_digit c \<or>
     c = CHR ''-'' \<or> c = CHR ''_'' \<or> c = CHR ''.'' \<or> c = CHR ''~''"

definition upperhex :: "nat \<Rightarrow> char" where
  "upperhex n = (if n < 10 then char_of (48 + n) else char_of (55 + n))"

fun QueryEscape :: "string \<Rightarrow> string" where
  "QueryEscape [] = []"
| "QueryEscape (c # cs) =
     (if unreserved c then c # QueryEscape cs
      else if c = CHR 0x20 then CHR ''+'' # QueryEscape cs
      else CHR ''%'' # upperhex (byte c div 16) # upperhex (byte c mod 16) # QueryEscape cs)"

fun join_amp :: "string list \<Rightarrow> string" where
  "join_amp [] = []"
| "join_amp [x] = x"
| "join_amp (x # y # ys) = x @ CHR ''&'' # join_amp (y # ys)"

definition Values_Encode :: "(string \<times> string) list \<Rightarrow> string" where
  "Values_Encode vs =
     join_amp (map (\<lambda>(k, v). QueryEscape k @ CHR ''='' # QueryEscape v) (sort_key fst vs))"

definition addOptions :: "string \<Rightarrow> WebhookListOptions \<Rightarrow> error + string" where
  "addOptions s opts =
     (let qs = Values_Encode (query_Values opts)
      in Inr (if qs = [] then s else s @ CHR ''?'' # qs))"

section \<open>The operations of webhook.go\<close>

text \<open>
  Each operation takes the state of the transport (and the memory, where it handles
  pointers to \<^verbatim>\<open>Webhook\<close>) and returns it with its results. A result
  \<^verbatim>\<open>(value, error)\<close> of the source is a sum: \<open>Inl err\<close> where the source returns
  the zero value and \<^verbatim>\<open>err\<close>, \<open>Inr value\<close> where it returns a nil error.
  \<^verbatim>\<open>fmt.Sprintf("/webhooks/%s", webhookID)\<close> appends the identifier to the
  prefix.
\<close>

definition ListWebhooks :: "('n, 'p) Client \<Rightarrow> WebhookListOptions option \<Rightarrow> 'n \<Rightarrow> (error + Webhook list \<times> 'p) \<times> 'n" where
  "ListWebhooks z opts n =
     (let data = \<lparr>body_Webhooks = [], body_Page = Page_zero z\<rparr>;
          tmp = (case opts of None \<Rightarrow> zeroWebhookListOptions | Some given \<Rightarrow> given)
      in case addOptions ''/webhooks'' tmp of
           Inl err \<Rightarrow> (Inl err, n)
         | Inr u \<Rightarrow>
             (case z_get z u n of
                (Inl err, n') \<Rightarrow> (Inl err, n')
              | (Inr body, n') \<Rightarrow>
                  (case json_Unmarshal (unmarshal_webhooks_body_field z) data body of
                     Inl err \<Rightarrow> (Inl err, n')
                   | Inr data' \<Rightarrow> (Inr (body_Webhooks data', body_Page data'), n'))))"

definition CreateWebhook :: "('n, 'p) Client \<Rightarrow> addr option \<Rightarrow> memory \<times> 'n \<Rightarrow> (error + addr option) \<times> memory \<times> 'n" where
  "CreateWebhook z hook s =
     (case s of
        (mem, n) \<Rightarrow>
          (let data = \<lparr>body_Webhook = hook\<rparr>;
               result = \<lparr>body_Webhook = None\<rparr>
           in case z_post z ''/webhooks'' data mem n of
                (Inl err, n') \<Rightarrow> (Inl err, mem, n')
              | (Inr body, n') \<Rightarrow>
                  (case json_Unmarshal (unmarshal_webhook_body_field (parseTime z)) (result, mem) body of
                     Inl err \<Rightarrow> (Inl err, mem, n')
                   | Inr (result', mem') \<Rightarrow> (Inr (body_Webhook result'), mem', n'))))"

definition GetWebhook :: "('n, 'p) Client \<Rightarrow> string \<Rightarrow> memory \<times> 'n \<Rightarrow> (error + addr option) \<times> memory \<times> 'n" where
  "GetWebhook z webhookID s =
     (case s of
        (mem, n) \<Rightarrow>
          (let result = \<lparr>body_Webhook = None\<rparr>
           in case z_get z (''/webhooks/'' @ webhookID) n of
                (Inl err, n') \<Rightarrow> (Inl err, mem, n')
              | (Inr body, n') \<Rightarrow>
                  (case json_Unmarshal (unmarshal_webhook_body_field (parseTime z)) (result, mem) body of
                     Inl err \<Rightarrow> (Inl err, mem, n')
                   | Inr (result', mem') \<Rightarrow> (Inr (body_Webhook result'), mem', n'))))"

definition UpdateWebhook :: "('n, 'p) Client \<Rightarrow> string \<Rightarrow> addr option \<Rightarrow> memory \<times> 'n \<Rightarrow> error option \<times> memory \<times> 'n" where
  "UpdateWebhook z webhookID hook s =
     (case s of
        (mem, n) \<Rightarrow>
          (let data = \<lparr>body_Webhook = hook\<rparr>
           in case z_put z (''/webhooks/'' @ webhookID) data mem n of
                (Inl err, n') \<Rightarrow> (Some err, mem, n')
              | (Inr body, n') \<Rightarrow> (None, mem, n')))"

definition DeleteWebhook :: "('n, 'p) Client \<Rightarrow> string \<Rightarrow> 'n \<Rightarrow> error option \<times> 'n" where
  "DeleteWebhook z webhookID n =
     (case z_delete z (''/webhooks/'' @ webhookID) n of
        (Some err, n') \<Rightarrow> (Some err, n')
      | (None, n') \<Rightarrow> (None, n'))"

definition GetWebhookSigningSecret :: "('n, 'p) Client \<Rightarrow> string \<Rightarrow> 'n \<Rightarrow> (error + WebhookSigningSecret option) \<times> 'n" where
  "GetWebhookSigningSecret z webhookID n =
     (let result = \<lparr>body_SigningSecret = None\<rparr>
      in case z_get z (''/webhooks/'' @ webhookID @ ''/signing_secret'') n of
           (Inl err, n') \<Rightarrow> (Inl err, n')
         | (Inr body, n') \<Rightarrow>
             (case json_Unmarshal unmarshal_signing_secret_body_field result body of
                Inl err \<Rightarrow> (Inl err, n')
              | Inr result' \<Rightarrow> (Inr (body_SigningSecret result'), n')))"

section \<open>A recording transport\<close>

text \<open>
  A transport in the manner of a test server, for running the operations: it encodes
  the body it is given as \<^verbatim>\<open>json.Marshal\<close> does, appends every request it sends to
  a log, and answers a request with what \<open>respond\<close> says. Its \<^verbatim>\<open>Page\<close> keeps the
  members of the response that are not the webhooks, and its parser of timestamps is
  the strict one.
\<close>

datatype verb = GET | POST | PUT | DELETE

record request =
  verb :: verb
  url :: string
  payload :: "json option"

definition send :: "(request \<Rightarrow> error + string) \<Rightarrow> request \<Rightarrow> request list \<Rightarrow> (error + string) \<times> request list" where
  "send respond r sent = (respond r, sent @ [r])"

definition send_body :: "(request \<Rightarrow> error + string) \<Rightarrow> verb \<Rightarrow> string \<Rightarrow> webhook_body \<Rightarrow> memory \<Rightarrow> request list \<Rightarrow> (error + string) \<times> request list" where
  "send_body respond v u d mem sent =
     (case marshal_webhook_body mem d of
        Inl e \<Rightarrow> (Inl e, sent)
      | Inr j \<Rightarrow> send respond \<lparr>verb = v, url = u, payload = Some j\<rparr> sent)"

definition recorder :: "(request \<Rightarrow> error + string) \<Rightarrow> (request list, (string \<times> json) list) Client" where
  "recorder respond =
     \<lparr>z_get = (\<lambda>u. send respond \<lparr>verb = GET, url = u, payload = None\<rparr>),
      z_post = send_body respond POST,
      z_put = send_body respond PUT,
      z_delete = (\<lambda>u sent.
        (case send respond \<lparr>verb = DELETE, url = u, payload = None\<rparr> sent of
           (Inl e, sent') \<Rightarrow> (Some e, sent')
         | (Inr b, sent') \<Rightarrow> (None, sent'))),
      Page_zero = [],
      Page_field = (\<lambda>p m. Inr (p @ [m])),
      parseTime = parseRFC3339\<rparr>"

section \<open>Concrete inputs\<close>

text \<open>
  Response bodies, transports and a memory for running the operations on concrete
  inputs. \<open>answer body\<close> answers every request with \<open>body\<close>; \<open>refuse msg\<close> fails
  every request.
\<close>

definition quoted :: "string \<Rightarrow> string" where
  "quoted s = dquote # s @ [dquote]"

definition answer :: "string \<Rightarrow> request \<Rightarrow> error + string" where
  "answer body r = Inr body"

definition refuse :: "string \<Rightarrow> request \<Rightarrow> error + string" where
  "refuse msg r = Inl (TransportError msg)"

definition empty_memory :: memory where
  "empty_memory = \<lparr>cells = (\<lambda>a. zeroWebhook), next_addr = 0\<rparr>"

text \<open>The body \<^verbatim>\<open>{"signing_secret":{"algorithm":"sha256","secret":"abc123"}}\<close>.\<close>

definition signing_secret_example :: string where
  "signing_secret_example =
     ''{'' @ quoted ''signing_secret'' @ '':{'' @ quoted ''algorithm'' @ '':'' @
     quoted ''sha256'' @ '','' @ quoted ''secret'' @ '':'' @ quoted ''abc123'' @ ''}}''"

text \<open>The body \<^verbatim>\<open>{"Webhook":{}}\<close>, whose one key has a capital letter.\<close>

definition capital_key_example :: string where
  "capital_key_example = ''{'' @ quoted ''Webhook'' @ '':{}}''"

text \<open>
  The shape the spec expects of the list response, in the spec's words "a JSON object
  containing a \<^verbatim>\<open>webhooks\<close> array and pagination metadata": of this, that the
  document is an object with a member \<^verbatim>\<open>webhooks\<close> that is an array. (What the
  pagination fields are the spec does not say.)
\<close>

definition has_webhooks_array :: "json \<Rightarrow> bool" where
  "has_webhooks_array j =
     (case j of
        JObject ms \<Rightarrow>
          list_ex (\<lambda>m. fst m = ''webhooks'' \<and> (case snd m of JArray xs \<Rightarrow> True | _ \<Rightarrow> False)) ms
      | _ \<Rightarrow> False)"

definition is_array_or_null :: "json \<Rightarrow> bool" where
  "is_array_or_null j = (case j of JNull \<Rightarrow> True | JArray xs \<Rightarrow> True | _ \<Rightarrow> False)"

text \<open>
  An address is allocated when an object has been put there. While a response is
  decoded into a \<open>webhook_body\<close> that started out nil, the pointer of the body is nil
  or points to an object allocated since, and the objects allocated before are as they
  were: this is \<open>decoding_from mem\<close>, said of the body and the memory at any moment
  of the decoding that began in the memory \<open>mem\<close>.
\<close>

definition allocated :: "memory \<Rightarrow> addr \<Rightarrow> bool" where
  "allocated mem a \<longleftrightarrow> a < next_addr mem"

definition decoding_from :: "memory \<Rightarrow> webhook_body \<times> memory \<Rightarrow> bool" where
  "decoding_from mem s =
     (case s of
        (r, mem') \<Rightarrow>
          next_addr mem \<le> next_addr mem' \<and>
          (\<forall>a. allocated mem a \<longrightarrow> cells mem' a = cells mem a) \<and>
          (case body_Webhook r of
             None \<Rightarrow> True
           | Some a \<Rightarrow> \<not> allocated mem a \<and> allocated mem' a))"

text \<open>
  A memory with one webhook, at address 0, and the body
  \<^verbatim>\<open>{"webhook":{"id":"9","name":"n"}}\<close>.
\<close>

definition one_hook_memory :: memory where
  "one_hook_memory =
     \<lparr>cells = (\<lambda>a. if a = 0 then zeroWebhook\<lparr>Name := ''n''\<rparr> else zeroWebhook), next_addr = 1\<rparr>"

definition created_example :: string where
  "created_example =
     ''{'' @ quoted ''webhook'' @ '':{'' @ quoted ''id'' @ '':'' @ quoted ''9'' @ '','' @
     quoted ''name'' @ '':'' @ quoted ''n'' @ ''}}''"

section \<open>Properties\<close>

subsection \<open>Decoding the signing secret\<close>

lemma signing_secret_example_decodes:
  "json_Unmarshal unmarshal_signing_secret_body_field \<lparr>body_SigningSecret = None\<rparr>
     signing_secret_example =
   Inr \<lparr>body_SigningSecret = Some \<lparr>Algorithm = ''sha256'', Secret = ''abc123''\<rparr>\<rparr>"
  by code_simp

text \<open>
  Claim C7. When the GET for \<^verbatim>\<open>/webhooks/{id}/signing_secret\<close> returns the body
  \<^verbatim>\<open>{"signing_secret":{"algorithm":"sha256","secret":"abc123"}}\<close>,
  \<^verbatim>\<open>GetWebhookSigningSecret\<close> returns a signing secret with algorithm
  \<^verbatim>\<open>sha256\<close> and secret \<^verbatim>\<open>abc123\<close>, and a nil error; this for every client,
  identifier and state of the transport.
\<close>

theorem GetWebhookSigningSecret_example:
  "z_get z (''/webhooks/'' @ webhookID @ ''/signing_secret'') n = (Inr signing_secret_example, n') \<Longrightarrow>
   GetWebhookSigningSecret z webhookID n =
     (Inr (Some \<lparr>Algorithm = ''sha256'', Secret = ''abc123''\<rparr>), n')"
  by (simp add: GetWebhookSigningSecret_def signing_secret_example_decodes)

theorem GetWebhookSigningSecret_example_witness:
  "GetWebhookSigningSecret (recorder (answer signing_secret_example)) ''42'' [] =
     (Inr (Some \<lparr>Algorithm = ''sha256'', Secret = ''abc123''\<rparr>),
      [\<lparr>verb = GET, url = ''/webhooks/42/signing_secret'', payload = None\<rparr>])"
  using GetWebhookSigningSecret_example
    [of "recorder (answer signing_secret_example)" "''42''" "[]"
        "[\<lparr>verb = GET, url = ''/webhooks/42/signing_secret'', payload = None\<rparr>]"]
  by (simp add: recorder_def send_def answer_def)

subsection \<open>Updating\<close>

text \<open>
  Claim C6. For every identifier and hook, \<^verbatim>\<open>UpdateWebhook\<close> returns a nil error
  whenever the PUT succeeds, whatever the body of the response is, and returns the error
  of the PUT whenever the PUT fails. (The memory is as it was in both cases.)
\<close>

theorem UpdateWebhook_error_is_put's:
  "(z_put z (''/webhooks/'' @ webhookID) \<lparr>body_Webhook = hook\<rparr> mem n = (Inr body, n') \<longrightarrow>
      UpdateWebhook z webhookID hook (mem, n) = (None, mem, n')) \<and>
   (z_put z (''/webhooks/'' @ webhookID) \<lparr>body_Webhook = hook\<rparr> mem n = (Inl err, n') \<longrightarrow>
      UpdateWebhook z webhookID hook (mem, n) = (Some err, mem, n'))"
  by (simp add: UpdateWebhook_def)

theorem UpdateWebhook_error_is_put's_witness:
  "UpdateWebhook (recorder (answer ''not JSON'')) ''7'' None (empty_memory, []) =
     (None, empty_memory,
      [\<lparr>verb = PUT, url = ''/webhooks/7'', payload = Some (JObject [(''webhook'', JNull)])\<rparr>]) \<and>
   UpdateWebhook (recorder (refuse ''404'')) ''7'' None (empty_memory, []) =
     (Some (TransportError ''404''), empty_memory,
      [\<lparr>verb = PUT, url = ''/webhooks/7'', payload = Some (JObject [(''webhook'', JNull)])\<rparr>])"
  using UpdateWebhook_error_is_put's
    [of "recorder (answer ''not JSON'')" "''7''" None empty_memory "[]" "''not JSON''"
        "[\<lparr>verb = PUT, url = ''/webhooks/7'', payload = Some (JObject [(''webhook'', JNull)])\<rparr>]"]
    UpdateWebhook_error_is_put's
    [of "recorder (refuse ''404'')" "''7''" None empty_memory "[]" _
        "[\<lparr>verb = PUT, url = ''/webhooks/7'', payload = Some (JObject [(''webhook'', JNull)])\<rparr>]"
        "TransportError ''404''"]
  by (simp add: recorder_def send_body_def send_def answer_def refuse_def marshal_webhook_body_def)

subsection \<open>Listing without options\<close>

text \<open>
  Claim C3. \<^verbatim>\<open>ListWebhooks\<close> with nil options is \<^verbatim>\<open>ListWebhooks\<close> with an
  empty \<^verbatim>\<open>WebhookListOptions\<close>: the same result and the same state of the
  transport, for every client. The URL built for the empty options is
  \<^verbatim>\<open>/webhooks\<close> with no query string, and that is the one request a recording
  transport sees.
\<close>

theorem ListWebhooks_nil_options:
  "ListWebhooks z None n = ListWebhooks z (Some zeroWebhookListOptions) n \<and>
   addOptions ''/webhooks'' zeroWebhookListOptions = Inr ''/webhooks'' \<and>
   snd (ListWebhooks (recorder respond) None sent) =
     sent @ [\<lparr>verb = GET, url = ''/webhooks'', payload = None\<rparr>]"
proof (intro conjI)
  show "ListWebhooks z None n = ListWebhooks z (Some zeroWebhookListOptions) n"
    by (simp add: ListWebhooks_def)
  show url: "addOptions ''/webhooks'' zeroWebhookListOptions = Inr ''/webhooks''"
    by (simp add: addOptions_def Values_Encode_def query_Values_def url_tagged_def
        zeroWebhookListOptions_def)
  show "snd (ListWebhooks (recorder respond) None sent) =
     sent @ [\<lparr>verb = GET, url = ''/webhooks'', payload = None\<rparr>]"
    by (simp add: ListWebhooks_def url recorder_def send_def split: sum.splits prod.splits)
qed

theorem ListWebhooks_nil_options_witness:
  "ListWebhooks (recorder (answer ''{}'')) None [] =
     ListWebhooks (recorder (answer ''{}'')) (Some zeroWebhookListOptions) [] \<and>
   snd (ListWebhooks (recorder (answer ''{}'')) None []) =
     [\<lparr>verb = GET, url = ''/webhooks'', payload = None\<rparr>]"
proof -
  note nil = ListWebhooks_nil_options [of "recorder (answer ''{}'')" "[]" "answer ''{}''" "[]"]
  show ?thesis
  proof (intro conjI)
    from nil show "ListWebhooks (recorder (answer ''{}'')) None [] =
        ListWebhooks (recorder (answer ''{}'')) (Some zeroWebhookListOptions) []"
      by (rule conjunct1)
    from nil have "snd (ListWebhooks (recorder (answer ''{}'')) None []) =
        [] @ [\<lparr>verb = GET, url = ''/webhooks'', payload = None\<rparr>]"
      by (elim conjE)
    then show "snd (ListWebhooks (recorder (answer ''{}'')) None []) =
        [\<lparr>verb = GET, url = ''/webhooks'', payload = None\<rparr>]"
      by (simp only: append.simps)
  qed
qed

subsection \<open>Empty fields in the encoding of a webhook\<close>

text \<open>
  Claim C1. The encoding of a \<^verbatim>\<open>Webhook\<close> should leave out \<^verbatim>\<open>created_at\<close> and
  \<^verbatim>\<open>updated_at\<close> when they are empty, as their \<^verbatim>\<open>omitempty\<close> tags say. It
  does not: the zero \<^verbatim>\<open>Webhook\<close>, all of whose fields are empty, is encoded with
  both timestamps (the zero time), besides the five fields that are always there.
\<close>

theorem marshal_zeroWebhook:
  "marshal_Webhook zeroWebhook =
     Inr (JObject
       [(''created_at'', JString ''0001-01-01T00:00:00Z''),
        (''endpoint'', JString []),
        (''http_method'', JString []),
        (''name'', JString []),
        (''request_format'', JString []),
        (''status'', JString []),
        (''updated_at'', JString ''0001-01-01T00:00:00Z'')])"
  by code_simp

subsection \<open>Storing the members of an object\<close>

lemma unmarshal_fields_append:
  "unmarshal_fields f x (xs @ ys) =
     (case unmarshal_fields f x xs of Inl e \<Rightarrow> Inl e | Inr x' \<Rightarrow> unmarshal_fields f x' ys)"
  by (induction xs arbitrary: x) (auto split: sum.splits)

lemma unmarshal_fields_skip:
  "list_all (\<lambda>m. f x m = Inr x) ms \<Longrightarrow> unmarshal_fields f x ms = Inr x"
  by (induction ms) auto

lemma unmarshal_fields_fails:
  "m \<in> set ms \<Longrightarrow> (\<And>x. isl (f x m)) \<Longrightarrow> isl (unmarshal_fields f x ms)"
proof (induction ms arbitrary: x)
  case Nil
  then show ?case by simp
next
  case (Cons a ms)
  show ?case
  proof (cases "f x a")
    case (Inl e)
    then show ?thesis by simp
  next
    case (Inr x')
    with Cons.prems have "m \<in> set ms"
      by (metis sum.disc(2) set_ConsD)
    with Cons.IH Cons.prems(2) Inr show ?thesis by simp
  qed
qed

lemma webhook_body_field_other:
  "\<not> names k ''webhook'' \<Longrightarrow> unmarshal_webhook_body_field parse (r, mem) (k, v) = Inr (r, mem)"
  by (simp add: unmarshal_webhook_body_field_def)

lemma signing_secret_body_field_other:
  "\<not> names k ''signing_secret'' \<Longrightarrow> unmarshal_signing_secret_body_field r (k, v) = Inr r"
  by (simp add: unmarshal_signing_secret_body_field_def)

lemma webhook_body_no_key:
  "list_all (\<lambda>m. \<not> names (fst m) ''webhook'') ms \<Longrightarrow>
   unmarshal_fields (unmarshal_webhook_body_field parse) (r, mem) ms = Inr (r, mem)"
  by (rule unmarshal_fields_skip) (auto simp: list_all_iff webhook_body_field_other)

lemma signing_secret_body_no_key:
  "list_all (\<lambda>m. \<not> names (fst m) ''signing_secret'') ms \<Longrightarrow>
   unmarshal_fields unmarshal_signing_secret_body_field r ms = Inr r"
  by (rule unmarshal_fields_skip) (auto simp: list_all_iff signing_secret_body_field_other)

subsection \<open>A response without the wrapper key\<close>

text \<open>
  Claim C10, as stated: for every response body that is a valid JSON object lacking the
  wrapper key, \<^verbatim>\<open>GetWebhook\<close> returns a nil pointer and a nil error. It fails on
  the body \<^verbatim>\<open>{"Webhook":{}}\<close>: the object has no key \<^verbatim>\<open>webhook\<close>, yet
  \<^verbatim>\<open>json.Unmarshal\<close> takes the key \<^verbatim>\<open>Webhook\<close> for the field, and
  \<^verbatim>\<open>GetWebhook\<close> returns a pointer to a new \<^verbatim>\<open>Webhook\<close> (at address 0 of the
  empty memory).
\<close>

theorem GetWebhook_capital_key:
  "json_parse capital_key_example = Some (JObject [(''Webhook'', JObject [])]) \<and>
   ''webhook'' \<notin> set (map fst [(''Webhook'', JObject [])]) \<and>
   fst (GetWebhook (recorder (answer capital_key_example)) ''1'' (empty_memory, [])) =
     Inr (Some 0)"
  by code_simp

text \<open>
  Claim C10, amended. For every response body that is a valid JSON object in which no
  key names the wrapper field (\<^verbatim>\<open>webhook\<close>, or \<^verbatim>\<open>signing_secret\<close>), be it
  exactly or under the case folding of \<^verbatim>\<open>json.Unmarshal\<close>, the operations
  \<^verbatim>\<open>GetWebhook\<close>, \<^verbatim>\<open>CreateWebhook\<close> and \<^verbatim>\<open>GetWebhookSigningSecret\<close> return a
  nil pointer together with a nil error, and leave the memory as it was.
\<close>

theorem missing_wrapper_key:
  assumes "json_parse body = Some (JObject ms)"
  shows "(list_all (\<lambda>m. \<not> names (fst m) ''webhook'') ms \<longrightarrow>
            z_get z (''/webhooks/'' @ webhookID) n = (Inr body, n') \<longrightarrow>
            GetWebhook z webhookID (mem, n) = (Inr None, mem, n')) \<and>
         (list_all (\<lambda>m. \<not> names (fst m) ''webhook'') ms \<longrightarrow>
            z_post z ''/webhooks'' \<lparr>body_Webhook = hook\<rparr> mem n = (Inr body, n') \<longrightarrow>
            CreateWebhook z hook (mem, n) = (Inr None, mem, n')) \<and>
         (list_all (\<lambda>m. \<not> names (fst m) ''signing_secret'') ms \<longrightarrow>
            z_get z (''/webhooks/'' @ webhookID @ ''/signing_secret'') n = (Inr body, n') \<longrightarrow>
            GetWebhookSigningSecret z webhookID n = (Inr None, n'))"
  using assms
  by (simp add: GetWebhook_def CreateWebhook_def GetWebhookSigningSecret_def json_Unmarshal_def
      unmarshal_struct_def webhook_body_no_key signing_secret_body_no_key)

theorem missing_wrapper_key_witness:
  "GetWebhook (recorder (answer ''{}'')) ''1'' (empty_memory, []) =
     (Inr None, empty_memory, [\<lparr>verb = GET, url = ''/webhooks/1'', payload = None\<rparr>]) \<and>
   CreateWebhook (recorder (answer ''{}'')) None (empty_memory, []) =
     (Inr None, empty_memory,
      [\<lparr>verb = POST, url = ''/webhooks'', payload = Some (JObject [(''webhook'', JNull)])\<rparr>]) \<and>
   GetWebhookSigningSecret (recorder (answer ''{}'')) ''1'' [] =
     (Inr None, [\<lparr>verb = GET, url = ''/webhooks/1/signing_secret'', payload = None\<rparr>])"
proof -
  have p: "json_parse ''{}'' = Some (JObject [])"
    by code_simp
  note th = missing_wrapper_key [OF p, where z = "recorder (answer ''{}'')" and webhookID = "''1''"
      and n = "[]" and mem = empty_memory and hook = None]
  show ?thesis
    using th [where n' = "[\<lparr>verb = GET, url = ''/webhooks/1'', payload = None\<rparr>]"]
      th [where n' = "[\<lparr>verb = POST, url = ''/webhooks'',
                       payload = Some (JObject [(''webhook'', JNull)])\<rparr>]"]
      th [where n' = "[\<lparr>verb = GET, url = ''/webhooks/1/signing_secret'', payload = None\<rparr>]"]
    by (simp add: recorder_def send_def send_body_def answer_def marshal_webhook_body_def)
qed

subsection \<open>The caller's webhook\<close>

lemma decoding_from_start: "decoding_from mem (\<lparr>body_Webhook = None\<rparr>, mem)"
  by (simp add: decoding_from_def)

lemma decoding_from_field:
  assumes "decoding_from mem s" and "unmarshal_webhook_body_field parse s m = Inr s'"
  shows "decoding_from mem s'"
proof -
  obtain r mem1 where s: "s = (r, mem1)" by (cases s)
  obtain k v where m: "m = (k, v)" by (cases m)
  show ?thesis
  proof (cases "names k ''webhook''")
    case False
    with assms s m show ?thesis by (simp add: unmarshal_webhook_body_field_def)
  next
    case True
    show ?thesis
    proof (cases v)
      case JNull
      with assms s m True show ?thesis
        by (auto simp: unmarshal_webhook_body_field_def decoding_from_def)
    next
      case (JObject ms)
      show ?thesis
      proof (cases "body_Webhook r")
        case None
        with assms s m True JObject show ?thesis
          by (auto simp: unmarshal_webhook_body_field_def decoding_from_def new_Webhook_def
              allocated_def split: sum.splits)
      next
        case (Some a)
        with assms s m True JObject show ?thesis
          by (auto simp: unmarshal_webhook_body_field_def decoding_from_def allocated_def
              split: sum.splits)
      qed
    qed (use assms s m True in \<open>simp_all add: unmarshal_webhook_body_field_def\<close>)
  qed
qed

lemma decoding_from_fields:
  "decoding_from mem s \<Longrightarrow> unmarshal_fields (unmarshal_webhook_body_field parse) s ms = Inr s' \<Longrightarrow>
   decoding_from mem s'"
proof (induction ms arbitrary: s)
  case Nil
  then show ?case by simp
next
  case (Cons m ms)
  then show ?case
    by (auto split: sum.splits dest: decoding_from_field)
qed

lemma decoding_from_Unmarshal:
  assumes "json_Unmarshal (unmarshal_webhook_body_field parse) (\<lparr>body_Webhook = None\<rparr>, mem) body = Inr s'"
  shows "decoding_from mem s'"
proof (cases "json_parse body")
  case None
  with assms show ?thesis by (simp add: json_Unmarshal_def)
next
  case (Some j)
  with assms show ?thesis
    by (cases j)
      (auto simp: json_Unmarshal_def unmarshal_struct_def decoding_from_start
        dest: decoding_from_fields [OF decoding_from_start])
qed

text \<open>
  Claim C9. No operation writes to the \<^verbatim>\<open>Webhook\<close> that the caller passes: after
  \<^verbatim>\<open>CreateWebhook\<close> and after \<^verbatim>\<open>UpdateWebhook\<close>, whether they succeed or
  fail, every object that was allocated before the call (the one that \<open>hook\<close> points
  to among them) is as it was, field for field. \<^verbatim>\<open>CreateWebhook\<close> decodes the
  response into a struct of its own whose pointer starts out nil, so that
  \<^verbatim>\<open>json.Unmarshal\<close> allocates the \<^verbatim>\<open>Webhook\<close> it fills.
\<close>

theorem hook_not_mutated:
  assumes "allocated mem a"
  shows "cells (fst (snd (CreateWebhook z hook (mem, n)))) a = cells mem a \<and>
         cells (fst (snd (UpdateWebhook z webhookID hook (mem, n)))) a = cells mem a"
proof
  show "cells (fst (snd (CreateWebhook z hook (mem, n)))) a = cells mem a"
  proof (cases "z_post z ''/webhooks'' \<lparr>body_Webhook = hook\<rparr> mem n")
    case (Pair got n1)
    show ?thesis
    proof (cases got)
      case (Inl err)
      with Pair show ?thesis by (simp add: CreateWebhook_def)
    next
      case (Inr body)
      show ?thesis
      proof (cases "json_Unmarshal (unmarshal_webhook_body_field (parseTime z)) (\<lparr>body_Webhook = None\<rparr>, mem) body")
        case (Inl err)
        with Pair \<open>got = Inr body\<close> show ?thesis by (simp add: CreateWebhook_def)
      next
        case (Inr s')
        then have "decoding_from mem s'" by (rule decoding_from_Unmarshal)
        moreover from Pair \<open>got = Inr body\<close> Inr
        have "fst (snd (CreateWebhook z hook (mem, n))) = snd s'"
          by (simp add: CreateWebhook_def split: prod.splits)
        ultimately show ?thesis
          using assms by (cases s') (simp add: decoding_from_def)
      qed
    qed
  qed
  show "cells (fst (snd (UpdateWebhook z webhookID hook (mem, n)))) a = cells mem a"
    by (simp add: UpdateWebhook_def split: prod.splits sum.splits)
qed

theorem hook_not_mutated_witness:
  "fst (CreateWebhook (recorder (answer created_example)) (Some 0) (one_hook_memory, [])) =
     Inr (Some 1) \<and>
   cells (fst (snd (CreateWebhook (recorder (answer created_example)) (Some 0)
     (one_hook_memory, [])))) 0 = zeroWebhook\<lparr>Name := ''n''\<rparr> \<and>
   cells (fst (snd (UpdateWebhook (recorder (answer created_example)) ''9'' (Some 0)
     (one_hook_memory, [])))) 0 = zeroWebhook\<lparr>Name := ''n''\<rparr>"
proof -
  have a: "allocated one_hook_memory 0"
    by (simp add: allocated_def one_hook_memory_def)
  have c: "cells one_hook_memory 0 = zeroWebhook\<lparr>Name := ''n''\<rparr>"
    by (simp add: one_hook_memory_def)
  have r: "fst (CreateWebhook (recorder (answer created_example)) (Some 0) (one_hook_memory, [])) =
      Inr (Some 1)"
    by code_simp
  from hook_not_mutated [OF a, of "recorder (answer created_example)" "Some 0" "[]" "''9''"]
  show ?thesis
    by (simp only: c r simp_thms)
qed

end
